theory Spec2Isabelle
  imports Main
begin

section \<open>Data model of the Ethoscan verifier\<close>

text \<open>
  The embedding follows \<^verbatim>\<open>src/ethoscan-verifier.js\<close>. JavaScript strings are modelled
  as \<^typ>\<open>string\<close>; the three characters of the source outside ASCII are written as their
  UTF-8 bytes. Numbers are \<^typ>\<open>int\<close>: every number the program handles is a small integer,
  which a JavaScript double represents exactly.
\<close>

text \<open>A thrown JavaScript \<^verbatim>\<open>Error\<close>: only its \<^verbatim>\<open>message\<close> is ever read (line 57).\<close>

datatype error = Error (message: string)

text \<open>One entry of \<^verbatim>\<open>result.pillars\<close> (lines 18--21).\<close>

record pillar_result =
  verified :: bool
  points :: int
  details :: string

text \<open>\<^verbatim>\<open>result.pillars\<close>: the four keys in their insertion order (lines 17--22).\<close>

record pillar_map =
  teamTransparency :: pillar_result
  fairLaunchPledge :: pillar_result
  liquidityCommitment :: pillar_result
  treasuryTransparency :: pillar_result

text \<open>The \<^verbatim>\<open>result\<close> object of \<^verbatim>\<open>verify\<close> (lines 12--25).\<close>

record report =
  address :: string
  score :: int
  maxScore :: int
  tier :: string
  pillars :: pillar_map
  risks :: "string list"
  warnings :: "string list"

text \<open>
  The external \<^verbatim>\<open>ethers\<close> provider, as far as the verifier uses it:
  \<^verbatim>\<open>provider.getCode(address)\<close> (line 68) and the \<^verbatim>\<open>getOwners()\<close> read of a contract
  constructed at the address (lines 73--74). Either call returns a value (\<open>Inr\<close>) or
  throws (\<open>Inl\<close>).
\<close>

record provider =
  getCode :: "string \<Rightarrow> error + string"
  getOwners :: "string \<Rightarrow> error + string list"

text \<open>The shape of the \<^verbatim>\<open>mockLpLock\<close> object (lines 113--117).\<close>

record lp_lock =
  locked :: bool
  days :: int
  renounceable :: bool

text \<open>
  The outcome of a step inside the \<^verbatim>\<open>try\<close> block of \<^verbatim>\<open>verify\<close>: the updated result
  object, or a thrown error together with the result object as it was when the error was
  thrown (the object is mutated in place, so the \<^verbatim>\<open>catch\<close> block sees that state).
\<close>

type_synonym outcome = "(error \<times> report) + report"

section \<open>Strings\<close>

definition em_dash :: string where
  "em_dash = [CHR 0xE2, CHR 0x80, CHR 0x94]"

definition warning_sign :: string where
  "warning_sign = [CHR 0xE2, CHR 0x9A, CHR 0xA0, CHR 0xEF, CHR 0xB8, CHR 0x8F]"

definition digit_char :: "nat \<Rightarrow> char" where
  "digit_char d = ''0123456789'' ! d"

text \<open>
  The decimal text a template literal produces for a non-negative integer such as
  \<^verbatim>\<open>owners.length\<close>.
\<close>

fun toString_nat :: "nat \<Rightarrow> string" where
  "toString_nat n =
     (if n < 10 then [digit_char n]
      else toString_nat (n div 10) @ [digit_char (n mod 10)])"

declare toString_nat.simps [simp del]

definition toString_int :: "int \<Rightarrow> string" where
  "toString_int i = (if i < 0 then CHR ''-'' # toString_nat (nat (- i)) else toString_nat (nat i))"

text \<open>\<^verbatim>\<open>Array.prototype.push\<close> on the message lists.\<close>

definition push :: "'a list \<Rightarrow> 'a \<Rightarrow> 'a list" where
  "push xs x = xs @ [x]"

section \<open>The verifier\<close>

text \<open>The initial \<^verbatim>\<open>result\<close> object (lines 12--25).\<close>

definition empty_pillar :: pillar_result where
  "empty_pillar = \<lparr>verified = False, points = 0, details = []\<rparr>"

definition initial_result :: "string \<Rightarrow> report" where
  "initial_result walletAddress =
     \<lparr>address = walletAddress, score = 0, maxScore = 500, tier = ''Unverified'',
      pillars = \<lparr>teamTransparency = empty_pillar, fairLaunchPledge = empty_pillar,
                 liquidityCommitment = empty_pillar, treasuryTransparency = empty_pillar\<rparr>,
      risks = [], warnings = []\<rparr>"

text \<open>Assignments to one key of \<^verbatim>\<open>result.pillars\<close>.\<close>

definition set_treasury :: "pillar_result \<Rightarrow> report \<Rightarrow> report" where
  "set_treasury v r = r\<lparr>pillars := (pillars r)\<lparr>treasuryTransparency := v\<rparr>\<rparr>"

definition set_liquidity :: "pillar_result \<Rightarrow> report \<Rightarrow> report" where
  "set_liquidity v r = r\<lparr>pillars := (pillars r)\<lparr>liquidityCommitment := v\<rparr>\<rparr>"

definition set_team :: "pillar_result \<Rightarrow> report \<Rightarrow> report" where
  "set_team v r = r\<lparr>pillars := (pillars r)\<lparr>teamTransparency := v\<rparr>\<rparr>"

definition set_fairLaunch :: "pillar_result \<Rightarrow> report \<Rightarrow> report" where
  "set_fairLaunch v r = r\<lparr>pillars := (pillars r)\<lparr>fairLaunchPledge := v\<rparr>\<rparr>"

text \<open>
  \<^verbatim>\<open>checkTreasury\<close> (lines 65--108). The \<^verbatim>\<open>getCode\<close> call of line 68 is outside the
  inner \<^verbatim>\<open>try\<close>, so its error leaves the function; everything thrown while constructing
  the contract or calling \<^verbatim>\<open>getOwners\<close> is caught at line 90.
\<close>

definition checkTreasury :: "provider \<Rightarrow> report \<Rightarrow> string \<Rightarrow> outcome" where
  "checkTreasury p result addr =
     (case getCode p addr of
        Inl e \<Rightarrow> Inl (e, result)
      | Inr code \<Rightarrow>
          if code \<noteq> ''0x'' then
            (case getOwners p addr of
               Inr owners \<Rightarrow>
                 if int (length owners) \<ge> 3 then
                   Inr (set_treasury
                     \<lparr>verified = True, points = 150,
                      details = ''Gnosis Safe with '' @ toString_nat (length owners) @ '' signers''\<rparr>
                     result)
                 else
                   Inr ((set_treasury
                     \<lparr>verified = False, points = 0,
                      details = ''Gnosis Safe but only '' @ toString_nat (length owners)
                                 @ '' signers (<3)''\<rparr>
                     result)
                     \<lparr>warnings := push (warnings result)
                        (''Low-signer Gnosis Safe ('' @ toString_nat (length owners) @ ''/3)'')\<rparr>)
             | Inl e \<Rightarrow>
                 Inr ((set_treasury
                   \<lparr>verified = False, points = 0, details = ''Not a Gnosis Safe''\<rparr> result)
                   \<lparr>risks := push (risks result)
                      (''Non-Gnosis treasury '' @ em_dash @ '' high withdrawal risk'')\<rparr>))
          else
            Inr ((set_treasury
              \<lparr>verified = False, points = 0,
               details = ''EOA wallet '' @ em_dash @ '' not multi-sig''\<rparr> result)
              \<lparr>risks := push (risks result)
                 (''Project treasury is single-key wallet '' @ em_dash @ '' critical risk'')\<rparr>))"

text \<open>
  \<^verbatim>\<open>checkLiquidity\<close> (lines 110--137). The test of line 124 and its two branches are
  \<open>checkLiquidity_on\<close>, a function of the lock object; the source applies it to the
  constant \<^verbatim>\<open>mockLpLock\<close>.
\<close>

definition mockLpLock :: lp_lock where
  "mockLpLock = \<lparr>locked = True, days = 180, renounceable = False\<rparr>"

definition checkLiquidity_on :: "lp_lock \<Rightarrow> report \<Rightarrow> string \<Rightarrow> report" where
  "checkLiquidity_on lock result addr =
     (if locked lock \<and> days lock \<ge> 180 \<and> \<not> renounceable lock then
        set_liquidity
          \<lparr>verified = True, points = 150,
           details = ''LP locked for '' @ toString_int (days lock) @ '' days (non-renounceable)''\<rparr>
          result
      else
        set_liquidity
          \<lparr>verified = False, points = 0, details = ''No qualifying LP lock''\<rparr> result)"

definition checkLiquidity :: "report \<Rightarrow> string \<Rightarrow> report" where
  "checkLiquidity result addr = checkLiquidity_on mockLpLock result addr"

text \<open>\<^verbatim>\<open>checkTeam\<close> (lines 139--160).\<close>

definition verifiedTeams :: "string list" where
  "verifiedTeams =
     [''0x742d35Cc6634C0532925a3b8D4C9db4c2B6D9126'',
      ''0x1234567890123456789012345678901234567890'']"

definition checkTeam :: "report \<Rightarrow> string \<Rightarrow> report" where
  "checkTeam result addr =
     (if addr \<in> set verifiedTeams then
        set_team \<lparr>verified = True, points = 100, details = ''Team verified via ENS/SIWE''\<rparr> result
      else
        set_team \<lparr>verified = False, points = 0, details = ''No team verification''\<rparr> result)"

text \<open>\<^verbatim>\<open>checkFairLaunch\<close> (lines 162--180).\<close>

definition hasPledge :: bool where
  "hasPledge = False"

definition checkFairLaunch :: "report \<Rightarrow> string \<Rightarrow> report" where
  "checkFairLaunch result addr =
     (if hasPledge then
        set_fairLaunch
          \<lparr>verified = True, points = 100, details = ''Fair launch pledge signed''\<rparr> result
      else
        set_fairLaunch
          \<lparr>verified = False, points = 0, details = ''No fair launch pledge''\<rparr> result)"

text \<open>\<^verbatim>\<open>getTier\<close> (lines 182--186).\<close>

definition getTier :: "int \<Rightarrow> string" where
  "getTier s =
     (if s \<ge> 350 then ''Verified Builder''
      else if s \<ge> 200 then ''Emerging Builder''
      else ''Unverified'')"

text \<open>
  \<^verbatim>\<open>Object.values(result.pillars)\<close>: the values in key insertion order, which
  assignments to existing keys do not change.
\<close>

definition object_values :: "pillar_map \<Rightarrow> pillar_result list" where
  "object_values pm =
     [teamTransparency pm, fairLaunchPledge pm, liquidityCommitment pm, treasuryTransparency pm]"

text \<open>Lines 41--53: the score, the tier and the aggregate messages.\<close>

definition finalize :: "report \<Rightarrow> report" where
  "finalize r0 =
     (let r1 = r0\<lparr>score := foldl (\<lambda>sum p. sum + points p) 0 (object_values (pillars r0))\<rparr>;
          r2 = r1\<lparr>tier := getTier (score r1)\<rparr>;
          r3 = (if score r2 < 200
                then r2\<lparr>risks := push (risks r2) ''High scam risk: Insufficient trust signals''\<rparr>
                else r2);
          r4 = (if \<not> verified (treasuryTransparency (pillars r3))
                then r3\<lparr>warnings := push (warnings r3)
                        (warning_sign @ '' Treasury not verified as Gnosis Safe'')\<rparr>
                else r3);
          r5 = (if \<not> verified (liquidityCommitment (pillars r4))
                then r4\<lparr>warnings := push (warnings r4)
                        (warning_sign @ '' No long-term LP lock detected'')\<rparr>
                else r4)
      in r5)"

text \<open>The \<^verbatim>\<open>try\<close> block of \<^verbatim>\<open>verify\<close> (lines 27--53).\<close>

definition verify_try :: "provider \<Rightarrow> report \<Rightarrow> string \<Rightarrow> outcome" where
  "verify_try p result walletAddress =
     (case checkTreasury p result walletAddress of
        Inl thrown \<Rightarrow> Inl thrown
      | Inr r1 \<Rightarrow>
          Inr (finalize
                 (checkFairLaunch
                    (checkTeam (checkLiquidity r1 walletAddress) walletAddress)
                    walletAddress)))"

text \<open>
  \<^verbatim>\<open>verify\<close> (lines 11--61): the \<^verbatim>\<open>catch\<close> block appends one warning to the result
  object and the object is returned on both paths.
\<close>

definition verify :: "provider \<Rightarrow> string \<Rightarrow> report" where
  "verify p walletAddress =
     (case verify_try p (initial_result walletAddress) walletAddress of
        Inr r \<Rightarrow> r
      | Inl (e, r) \<Rightarrow>
          r\<lparr>warnings := push (warnings r) (''Verification failed: '' @ message e)\<rparr>)"

section \<open>Concrete providers and addresses\<close>

text \<open>A provider whose every call throws an error with the given message.\<close>

definition failing_provider :: "string \<Rightarrow> provider" where
  "failing_provider msg =
     \<lparr>getCode = (\<lambda>_. Inl (Error msg)), getOwners = (\<lambda>_. Inl (Error msg))\<rparr>"

text \<open>A provider for which every address is an externally-owned account.\<close>

definition eoa_provider :: provider where
  "eoa_provider =
     \<lparr>getCode = (\<lambda>_. Inr ''0x''),
      getOwners = (\<lambda>_. Inl (Error ''call revert exception''))\<rparr>"

text \<open>A provider for which every address is a Safe with \<open>n\<close> owners.\<close>

definition safe_provider :: "nat \<Rightarrow> provider" where
  "safe_provider n =
     \<lparr>getCode = (\<lambda>_. Inr ''0x6080''),
      getOwners = (\<lambda>_. Inr (replicate n ''0x742d35Cc6634C0532925a3b8D4C9db4c2B6D9126''))\<rparr>"

text \<open>A provider for which every address is a contract without \<^verbatim>\<open>getOwners\<close>.\<close>

definition contract_provider :: provider where
  "contract_provider =
     \<lparr>getCode = (\<lambda>_. Inr ''0x6080''),
      getOwners = (\<lambda>_. Inl (Error ''call revert exception''))\<rparr>"

text \<open>The second entry of \<^verbatim>\<open>verifiedTeams\<close>, and the placeholder address of \<^verbatim>\<open>demo\<close>.\<close>

definition team_address :: string where
  "team_address = ''0x1234567890123456789012345678901234567890''"

definition scam_address :: string where
  "scam_address = ''0xScamWalletAddressHere''"

section \<open>Evaluation lemmas\<close>

lemma toString_int_180: "toString_int 180 = ''180''"
  by (simp add: toString_int_def toString_nat.simps digit_char_def)

lemma toString_nat_2: "toString_nat 2 = ''2''"
  by (simp add: toString_nat.simps digit_char_def)

lemma toString_nat_3: "toString_nat 3 = ''3''"
  by (simp add: toString_nat.simps digit_char_def)

lemma verify_fetch_throws:
  "getCode p a = Inl e \<Longrightarrow>
   verify p a = (initial_result a)\<lparr>warnings := [''Verification failed: '' @ message e]\<rparr>"
  by (simp add: verify_def verify_try_def checkTreasury_def push_def initial_result_def)

section \<open>The steps of the try block, one by one\<close>

lemma treasury_step_eoa:
  "getCode p a = Inr ''0x'' \<Longrightarrow>
   checkTreasury p r a =
     Inr (r\<lparr>pillars := (pillars r)\<lparr>treasuryTransparency :=
              \<lparr>verified = False, points = 0,
               details = ''EOA wallet '' @ em_dash @ '' not multi-sig''\<rparr>\<rparr>,
            risks := risks r @
              [''Project treasury is single-key wallet '' @ em_dash @ '' critical risk'']\<rparr>)"
  by (simp add: checkTreasury_def set_treasury_def push_def)

lemma treasury_step_safe:
  "getCode p a = Inr code \<Longrightarrow> code \<noteq> ''0x'' \<Longrightarrow> getOwners p a = Inr owners \<Longrightarrow>
   3 \<le> length owners \<Longrightarrow>
   checkTreasury p r a =
     Inr (r\<lparr>pillars := (pillars r)\<lparr>treasuryTransparency :=
              \<lparr>verified = True, points = 150,
               details = ''Gnosis Safe with '' @ toString_nat (length owners)
                          @ '' signers''\<rparr>\<rparr>\<rparr>)"
  by (simp add: checkTreasury_def set_treasury_def)

lemma treasury_step_low_signer:
  "getCode p a = Inr code \<Longrightarrow> code \<noteq> ''0x'' \<Longrightarrow> getOwners p a = Inr owners \<Longrightarrow>
   length owners < 3 \<Longrightarrow>
   checkTreasury p r a =
     Inr (r\<lparr>pillars := (pillars r)\<lparr>treasuryTransparency :=
              \<lparr>verified = False, points = 0,
               details = ''Gnosis Safe but only '' @ toString_nat (length owners)
                          @ '' signers (<3)''\<rparr>\<rparr>,
            warnings := warnings r @
              [''Low-signer Gnosis Safe ('' @ toString_nat (length owners) @ ''/3)'']\<rparr>)"
  by (simp add: checkTreasury_def set_treasury_def push_def)

lemma treasury_step_call_fails:
  "getCode p a = Inr code \<Longrightarrow> code \<noteq> ''0x'' \<Longrightarrow> getOwners p a = Inl e \<Longrightarrow>
   checkTreasury p r a =
     Inr (r\<lparr>pillars := (pillars r)\<lparr>treasuryTransparency :=
              \<lparr>verified = False, points = 0, details = ''Not a Gnosis Safe''\<rparr>\<rparr>,
            risks := risks r @
              [''Non-Gnosis treasury '' @ em_dash @ '' high withdrawal risk'']\<rparr>)"
  by (simp add: checkTreasury_def set_treasury_def push_def)

text \<open>What every non-throwing run of \<open>checkTreasury\<close> has in common.\<close>

lemma treasury_step_frame:
  assumes "getCode p a = Inr code"
  shows "\<exists>r1. checkTreasury p r a = Inr r1 \<and>
    address r1 = address r \<and> maxScore r1 = maxScore r \<and>
    teamTransparency (pillars r1) = teamTransparency (pillars r) \<and>
    fairLaunchPledge (pillars r1) = fairLaunchPledge (pillars r) \<and>
    liquidityCommitment (pillars r1) = liquidityCommitment (pillars r) \<and>
    (verified (treasuryTransparency (pillars r1))
       \<and> points (treasuryTransparency (pillars r1)) = 150
     \<or> \<not> verified (treasuryTransparency (pillars r1))
       \<and> points (treasuryTransparency (pillars r1)) = 0)"
proof (cases "code = ''0x''")
  case True
  with assms show ?thesis by (simp add: treasury_step_eoa)
next
  case contract: False
  show ?thesis
  proof (cases "getOwners p a")
    case (Inl e)
    with assms contract show ?thesis by (simp add: treasury_step_call_fails)
  next
    case (Inr owners)
    show ?thesis
    proof (cases "3 \<le> length owners")
      case True
      with assms contract Inr show ?thesis by (simp add: treasury_step_safe)
    next
      case False
      then have "length owners < 3" by simp
      with assms contract Inr show ?thesis by (simp add: treasury_step_low_signer)
    qed
  qed
qed

lemma checkLiquidity_eq:
  "checkLiquidity r a =
     r\<lparr>pillars := (pillars r)\<lparr>liquidityCommitment :=
          \<lparr>verified = True, points = 150,
           details = ''LP locked for 180 days (non-renounceable)''\<rparr>\<rparr>\<rparr>"
  by (simp add: checkLiquidity_def checkLiquidity_on_def mockLpLock_def set_liquidity_def
      toString_int_180)

lemma checkTeam_eq:
  "checkTeam r a =
     r\<lparr>pillars := (pillars r)\<lparr>teamTransparency :=
          (if a \<in> set verifiedTeams
           then \<lparr>verified = True, points = 100, details = ''Team verified via ENS/SIWE''\<rparr>
           else \<lparr>verified = False, points = 0, details = ''No team verification''\<rparr>)\<rparr>\<rparr>"
  by (simp add: checkTeam_def set_team_def)

lemma checkFairLaunch_eq:
  "checkFairLaunch r a =
     r\<lparr>pillars := (pillars r)\<lparr>fairLaunchPledge :=
          \<lparr>verified = False, points = 0, details = ''No fair launch pledge''\<rparr>\<rparr>\<rparr>"
  by (simp add: checkFairLaunch_def hasPledge_def set_fairLaunch_def)

lemma finalize_pillars: "pillars (finalize r) = pillars r"
  by (simp add: finalize_def Let_def)

lemma finalize_address: "address (finalize r) = address r \<and> maxScore (finalize r) = maxScore r"
  by (simp add: finalize_def Let_def)

lemma finalize_score:
  "score (finalize r) =
     points (teamTransparency (pillars r)) + points (fairLaunchPledge (pillars r))
     + points (liquidityCommitment (pillars r)) + points (treasuryTransparency (pillars r))"
  by (simp add: finalize_def Let_def object_values_def)

lemma finalize_tier: "tier (finalize r) = getTier (score (finalize r))"
  by (simp add: finalize_def Let_def)

lemma finalize_risks:
  "risks (finalize r) =
     risks r @ (if score (finalize r) < 200
                then [''High scam risk: Insufficient trust signals''] else [])"
  by (simp add: finalize_def Let_def push_def)

lemma finalize_warnings:
  "warnings (finalize r) =
     warnings r
     @ (if \<not> verified (treasuryTransparency (pillars r))
        then [warning_sign @ '' Treasury not verified as Gnosis Safe''] else [])
     @ (if \<not> verified (liquidityCommitment (pillars r))
        then [warning_sign @ '' No long-term LP lock detected''] else [])"
  by (simp add: finalize_def Let_def push_def)

text \<open>The report of a run whose bytecode fetch returned, from the treasury step's result.\<close>

lemma verify_after_treasury:
  "checkTreasury p (initial_result a) a = Inr r1 \<Longrightarrow>
   verify p a = finalize (checkFairLaunch (checkTeam (checkLiquidity r1 a) a) a)"
  by (simp add: verify_def verify_try_def)

lemma verify_after_treasury_pillars:
  assumes "checkTreasury p (initial_result a) a = Inr r1"
  shows "pillars (verify p a) =
    (pillars r1)\<lparr>liquidityCommitment :=
        \<lparr>verified = True, points = 150,
         details = ''LP locked for 180 days (non-renounceable)''\<rparr>,
      teamTransparency :=
        (if a \<in> set verifiedTeams
         then \<lparr>verified = True, points = 100, details = ''Team verified via ENS/SIWE''\<rparr>
         else \<lparr>verified = False, points = 0, details = ''No team verification''\<rparr>),
      fairLaunchPledge :=
        \<lparr>verified = False, points = 0, details = ''No fair launch pledge''\<rparr>\<rparr>"
  by (simp only: verify_after_treasury [OF assms] finalize_pillars)
     (simp add: checkLiquidity_eq checkTeam_eq checkFairLaunch_eq)

lemma verify_after_treasury_risks:
  assumes "checkTreasury p (initial_result a) a = Inr r1"
  shows "risks (verify p a) =
    risks r1 @ (if score (verify p a) < 200
                then [''High scam risk: Insufficient trust signals''] else [])"
  by (simp only: verify_after_treasury [OF assms] finalize_risks)
     (simp add: checkLiquidity_eq checkTeam_eq checkFairLaunch_eq)

lemma verify_after_treasury_warnings:
  assumes "checkTreasury p (initial_result a) a = Inr r1"
  shows "warnings (verify p a) =
    warnings r1
    @ (if \<not> verified (treasuryTransparency (pillars r1))
       then [warning_sign @ '' Treasury not verified as Gnosis Safe''] else [])"
  by (simp only: verify_after_treasury [OF assms] finalize_warnings)
     (simp add: checkLiquidity_eq checkTeam_eq checkFairLaunch_eq)

lemma verify_score:
  "score (verify p a) =
     points (teamTransparency (pillars (verify p a)))
     + points (fairLaunchPledge (pillars (verify p a)))
     + points (liquidityCommitment (pillars (verify p a)))
     + points (treasuryTransparency (pillars (verify p a)))"
proof (cases "getCode p a")
  case (Inl e)
  then show ?thesis
    by (simp add: verify_fetch_throws initial_result_def empty_pillar_def)
next
  case (Inr code)
  from treasury_step_frame [OF this] obtain r1
    where "checkTreasury p (initial_result a) a = Inr r1" by blast
  then show ?thesis
    by (simp only: verify_after_treasury finalize_pillars finalize_score)
qed

section \<open>The tier function\<close>

text \<open>
  Claim C3, as stated, puts a score of 349 in the tier Unverified. The function returns
  Emerging Builder there: \<open>349 \<ge> 200\<close> is the second test of lines 183--185.
\<close>

theorem getTier_349_counterexample:
  "getTier 349 = ''Emerging Builder'' \<and> getTier 349 \<noteq> ''Unverified''"
  by (simp add: getTier_def)

text \<open>
  Claim C3, amended: the tier is a function of the score alone, with inclusive lower
  bounds tested top-down. A score of at least 350 gives Verified Builder, otherwise a score
  of at least 200 gives Emerging Builder, otherwise Unverified; 350 gives Verified
  Builder, 349 and 200 give Emerging Builder, 199 gives Unverified. The tier of every
  report that \<open>verify\<close> returns is the tier of its score.
\<close>

theorem getTier_thresholds:
  "(350 \<le> s \<longrightarrow> getTier s = ''Verified Builder'') \<and>
   (200 \<le> s \<and> s < 350 \<longrightarrow> getTier s = ''Emerging Builder'') \<and>
   (s < 200 \<longrightarrow> getTier s = ''Unverified'') \<and>
   getTier 350 = ''Verified Builder'' \<and> getTier 349 = ''Emerging Builder'' \<and>
   getTier 200 = ''Emerging Builder'' \<and> getTier 199 = ''Unverified'' \<and>
   tier (verify p a) = getTier (score (verify p a))"
proof -
  have bands: "(350 \<le> s \<longrightarrow> getTier s = ''Verified Builder'') \<and>
      (200 \<le> s \<and> s < 350 \<longrightarrow> getTier s = ''Emerging Builder'') \<and>
      (s < 200 \<longrightarrow> getTier s = ''Unverified'')"
    by (simp add: getTier_def)
  have points: "getTier 350 = ''Verified Builder'' \<and> getTier 349 = ''Emerging Builder'' \<and>
      getTier 200 = ''Emerging Builder'' \<and> getTier 199 = ''Unverified''"
    by (simp add: getTier_def)
  have "tier (verify p a) = getTier (score (verify p a))"
  proof (cases "getCode p a")
    case (Inl e)
    then show ?thesis
      by (simp add: verify_fetch_throws initial_result_def getTier_def)
  next
    case (Inr code)
    from treasury_step_frame [OF this] obtain r1
      where step: "checkTreasury p (initial_result a) a = Inr r1" by blast
    show ?thesis
      by (simp only: verify_after_treasury [OF step] finalize_tier)
  qed
  with bands points show ?thesis by blast
qed

theorem getTier_thresholds_witness:
  "(350::int) \<le> 400 \<and> getTier 400 = ''Verified Builder'' \<and>
   (200::int) \<le> 250 \<and> (250::int) < 350 \<and> getTier 250 = ''Emerging Builder'' \<and>
   (100::int) < 200 \<and> getTier 100 = ''Unverified''"
  using getTier_thresholds [of 400] getTier_thresholds [of 250] getTier_thresholds [of 100]
  by simp

section \<open>Score and binary scoring\<close>

text \<open>
  Claim C2: the score of every report that \<open>verify\<close> returns is the sum of the points of
  its four pillar results, and lies between 0 and 500.
\<close>

theorem verify_score_is_sum:
  "score (verify p a) =
     points (teamTransparency (pillars (verify p a)))
     + points (fairLaunchPledge (pillars (verify p a)))
     + points (liquidityCommitment (pillars (verify p a)))
     + points (treasuryTransparency (pillars (verify p a))) \<and>
   0 \<le> score (verify p a) \<and> score (verify p a) \<le> 500"
proof (cases "getCode p a")
  case (Inl e)
  then show ?thesis
    by (simp add: verify_fetch_throws initial_result_def empty_pillar_def)
next
  case (Inr code)
  from treasury_step_frame [OF this] obtain r1
    where step: "checkTreasury p (initial_result a) a = Inr r1"
      and binary: "verified (treasuryTransparency (pillars r1))
          \<and> points (treasuryTransparency (pillars r1)) = 150
        \<or> \<not> verified (treasuryTransparency (pillars r1))
          \<and> points (treasuryTransparency (pillars r1)) = 0"
    by blast
  from binary have "0 \<le> score (verify p a) \<and> score (verify p a) \<le> 500"
    unfolding verify_score verify_after_treasury_pillars [OF step] by auto
  with verify_score show ?thesis by simp
qed

text \<open>
  Claim C4: in every report that \<open>verify\<close> returns, each pillar holds its maximum (150
  for treasury and liquidity, 100 for team and fair launch) exactly when it is verified,
  and 0 points exactly when it is not.
\<close>

theorem verify_binary_scoring:
  "((points (treasuryTransparency (pillars (verify p a))) = 150)
      = verified (treasuryTransparency (pillars (verify p a)))) \<and>
   ((points (treasuryTransparency (pillars (verify p a))) = 0)
      = (\<not> verified (treasuryTransparency (pillars (verify p a))))) \<and>
   ((points (liquidityCommitment (pillars (verify p a))) = 150)
      = verified (liquidityCommitment (pillars (verify p a)))) \<and>
   ((points (liquidityCommitment (pillars (verify p a))) = 0)
      = (\<not> verified (liquidityCommitment (pillars (verify p a))))) \<and>
   ((points (teamTransparency (pillars (verify p a))) = 100)
      = verified (teamTransparency (pillars (verify p a)))) \<and>
   ((points (teamTransparency (pillars (verify p a))) = 0)
      = (\<not> verified (teamTransparency (pillars (verify p a))))) \<and>
   ((points (fairLaunchPledge (pillars (verify p a))) = 100)
      = verified (fairLaunchPledge (pillars (verify p a)))) \<and>
   ((points (fairLaunchPledge (pillars (verify p a))) = 0)
      = (\<not> verified (fairLaunchPledge (pillars (verify p a)))))"
proof (cases "getCode p a")
  case (Inl e)
  then show ?thesis
    by (simp add: verify_fetch_throws initial_result_def empty_pillar_def)
next
  case (Inr code)
  from treasury_step_frame [OF this] obtain r1
    where step: "checkTreasury p (initial_result a) a = Inr r1"
      and binary: "verified (treasuryTransparency (pillars r1))
          \<and> points (treasuryTransparency (pillars r1)) = 150
        \<or> \<not> verified (treasuryTransparency (pillars r1))
          \<and> points (treasuryTransparency (pillars r1)) = 0"
    by blast
  from binary show ?thesis
    unfolding verify_after_treasury_pillars [OF step] by auto
qed

section \<open>The liquidity checker\<close>

text \<open>
  Claim C5: the liquidity checker marks the pillar verified with 150 points exactly when
  the lock is locked, lasts at least 180 days and is not renounceable; otherwise the
  pillar is unverified with 0 points and details "No qualifying LP lock". A locked,
  non-renounceable lock of 180 days verifies, one of 179 days does not.
\<close>

theorem checkLiquidity_on_rule:
  "verified (liquidityCommitment (pillars (checkLiquidity_on lock r a)))
     = (locked lock \<and> 180 \<le> days lock \<and> \<not> renounceable lock) \<and>
   points (liquidityCommitment (pillars (checkLiquidity_on lock r a)))
     = (if locked lock \<and> 180 \<le> days lock \<and> \<not> renounceable lock then 150 else 0) \<and>
   (\<not> (locked lock \<and> 180 \<le> days lock \<and> \<not> renounceable lock) \<longrightarrow>
      details (liquidityCommitment (pillars (checkLiquidity_on lock r a)))
        = ''No qualifying LP lock'') \<and>
   liquidityCommitment (pillars (checkLiquidity_on
       \<lparr>locked = True, days = 180, renounceable = False\<rparr> r a))
     = \<lparr>verified = True, points = 150,
        details = ''LP locked for 180 days (non-renounceable)''\<rparr> \<and>
   liquidityCommitment (pillars (checkLiquidity_on
       \<lparr>locked = True, days = 179, renounceable = False\<rparr> r a))
     = \<lparr>verified = False, points = 0, details = ''No qualifying LP lock''\<rparr> \<and>
   checkLiquidity r a = checkLiquidity_on mockLpLock r a"
  by (simp add: checkLiquidity_def checkLiquidity_on_def set_liquidity_def toString_int_180)

theorem checkLiquidity_on_rule_witness:
  "\<not> (locked \<lparr>locked = True, days = 200, renounceable = True\<rparr>
        \<and> 180 \<le> days \<lparr>locked = True, days = 200, renounceable = True\<rparr>
        \<and> \<not> renounceable \<lparr>locked = True, days = 200, renounceable = True\<rparr>) \<and>
   details (liquidityCommitment (pillars (checkLiquidity_on
       \<lparr>locked = True, days = 200, renounceable = True\<rparr> (initial_result team_address)
       team_address)))
     = ''No qualifying LP lock''"
  using checkLiquidity_on_rule
    [of "\<lparr>locked = True, days = 200, renounceable = True\<rparr>" "initial_result team_address"
        team_address]
  by simp

text \<open>
  Claim C10: for every address the liquidity checker sets the pillar to verified with 150
  points from the built-in lock data, whatever the address and the report so far; so
  every report in which all four checkers ran has a score of at least 150.
\<close>

theorem checkLiquidity_mock:
  "liquidityCommitment (pillars (checkLiquidity r a))
     = \<lparr>verified = True, points = 150,
        details = ''LP locked for 180 days (non-renounceable)''\<rparr> \<and>
   mockLpLock = \<lparr>locked = True, days = 180, renounceable = False\<rparr> \<and>
   (getCode p a = Inr code \<longrightarrow>
      liquidityCommitment (pillars (verify p a))
        = \<lparr>verified = True, points = 150,
           details = ''LP locked for 180 days (non-renounceable)''\<rparr> \<and>
      150 \<le> score (verify p a))"
proof -
  have checker: "liquidityCommitment (pillars (checkLiquidity r a))
     = \<lparr>verified = True, points = 150,
        details = ''LP locked for 180 days (non-renounceable)''\<rparr>"
    by (simp add: checkLiquidity_eq)
  have report: "liquidityCommitment (pillars (verify p a))
        = \<lparr>verified = True, points = 150,
           details = ''LP locked for 180 days (non-renounceable)''\<rparr> \<and>
      150 \<le> score (verify p a)" if fetch: "getCode p a = Inr code"
  proof -
    from treasury_step_frame [OF fetch] obtain r1
      where step: "checkTreasury p (initial_result a) a = Inr r1"
        and binary: "verified (treasuryTransparency (pillars r1))
            \<and> points (treasuryTransparency (pillars r1)) = 150
          \<or> \<not> verified (treasuryTransparency (pillars r1))
            \<and> points (treasuryTransparency (pillars r1)) = 0"
      by blast
    from binary show ?thesis
      unfolding verify_score verify_after_treasury_pillars [OF step] by auto
  qed
  from checker report show ?thesis by (simp add: mockLpLock_def)
qed

theorem checkLiquidity_mock_witness:
  "getCode eoa_provider scam_address = Inr ''0x'' \<and>
   liquidityCommitment (pillars (verify eoa_provider scam_address))
     = \<lparr>verified = True, points = 150,
        details = ''LP locked for 180 days (non-renounceable)''\<rparr> \<and>
   150 \<le> score (verify eoa_provider scam_address)"
proof -
  have fetch: "getCode eoa_provider scam_address = Inr ''0x''"
    by (simp add: eoa_provider_def)
  with checkLiquidity_mock [of "initial_result scam_address" scam_address eoa_provider "''0x''"]
  show ?thesis by simp
qed

section \<open>The treasury checker\<close>

text \<open>
  Claim C6: when the address holds non-empty bytecode, the outcome of the treasury
  checker is decided by the \<^verbatim>\<open>getOwners\<close> call. If the call returns three or more
  owners, the pillar is verified with 150 points and its details give the owner count.
  If it returns fewer than three, the pillar is unverified with 0 points and the
  low-signer warning is appended. If the call fails, the pillar is unverified with 0
  points and the non-multisig risk is appended. The treasury pillar of the report that
  \<open>verify\<close> returns is the one the checker produced.
\<close>

theorem checkTreasury_contract:
  assumes "getCode p a = Inr code" and "code \<noteq> ''0x''"
  shows "\<exists>r1. checkTreasury p r a = Inr r1 \<and>
    (\<forall>owners. getOwners p a = Inr owners \<and> 3 \<le> length owners \<longrightarrow>
       treasuryTransparency (pillars r1) =
         \<lparr>verified = True, points = 150,
          details = ''Gnosis Safe with '' @ toString_nat (length owners) @ '' signers''\<rparr> \<and>
       risks r1 = risks r \<and> warnings r1 = warnings r) \<and>
    (\<forall>owners. getOwners p a = Inr owners \<and> length owners < 3 \<longrightarrow>
       treasuryTransparency (pillars r1) =
         \<lparr>verified = False, points = 0,
          details = ''Gnosis Safe but only '' @ toString_nat (length owners)
                     @ '' signers (<3)''\<rparr> \<and>
       risks r1 = risks r \<and>
       warnings r1 = warnings r @
         [''Low-signer Gnosis Safe ('' @ toString_nat (length owners) @ ''/3)'']) \<and>
    (\<forall>e. getOwners p a = Inl e \<longrightarrow>
       treasuryTransparency (pillars r1) =
         \<lparr>verified = False, points = 0, details = ''Not a Gnosis Safe''\<rparr> \<and>
       risks r1 = risks r @ [''Non-Gnosis treasury '' @ em_dash @ '' high withdrawal risk''] \<and>
       warnings r1 = warnings r) \<and>
    (r = initial_result a \<longrightarrow>
       treasuryTransparency (pillars (verify p a)) = treasuryTransparency (pillars r1))"
proof (cases "getOwners p a")
  case (Inl e)
  note step = treasury_step_call_fails [OF assms Inl]
  show ?thesis
    using Inl by (auto simp: step verify_after_treasury_pillars [OF step])
next
  case (Inr owners)
  show ?thesis
  proof (cases "3 \<le> length owners")
    case True
    note step = treasury_step_safe [OF assms Inr True]
    show ?thesis
      using Inr True by (auto simp: step verify_after_treasury_pillars [OF step])
  next
    case False
    then have few: "length owners < 3" by simp
    note step = treasury_step_low_signer [OF assms Inr few]
    show ?thesis
      using Inr few by (auto simp: step verify_after_treasury_pillars [OF step])
  qed
qed

theorem checkTreasury_contract_witness:
  "treasuryTransparency (pillars (verify (safe_provider 3) team_address)) =
     \<lparr>verified = True, points = 150, details = ''Gnosis Safe with 3 signers''\<rparr> \<and>
   treasuryTransparency (pillars (verify (safe_provider 2) team_address)) =
     \<lparr>verified = False, points = 0, details = ''Gnosis Safe but only 2 signers (<3)''\<rparr> \<and>
   treasuryTransparency (pillars (verify contract_provider team_address)) =
     \<lparr>verified = False, points = 0, details = ''Not a Gnosis Safe''\<rparr>"
proof -
  have code: "''0x6080'' \<noteq> ''0x''" by simp
  have three: "getCode (safe_provider 3) team_address = Inr ''0x6080''"
    and two: "getCode (safe_provider 2) team_address = Inr ''0x6080''"
    and other: "getCode contract_provider team_address = Inr ''0x6080''"
    by (simp_all add: safe_provider_def contract_provider_def)
  have owners3: "getOwners (safe_provider 3) team_address
      = Inr (replicate 3 ''0x742d35Cc6634C0532925a3b8D4C9db4c2B6D9126'')"
    and owners2: "getOwners (safe_provider 2) team_address
      = Inr (replicate 2 ''0x742d35Cc6634C0532925a3b8D4C9db4c2B6D9126'')"
    and fails: "getOwners contract_provider team_address = Inl (Error ''call revert exception'')"
    by (simp_all add: safe_provider_def contract_provider_def)
  from checkTreasury_contract [OF three code, of "initial_result team_address"] owners3
  have "treasuryTransparency (pillars (verify (safe_provider 3) team_address)) =
     \<lparr>verified = True, points = 150, details = ''Gnosis Safe with 3 signers''\<rparr>"
    by (auto simp: toString_nat_3)
  moreover
  from checkTreasury_contract [OF two code, of "initial_result team_address"] owners2
  have "treasuryTransparency (pillars (verify (safe_provider 2) team_address)) =
     \<lparr>verified = False, points = 0, details = ''Gnosis Safe but only 2 signers (<3)''\<rparr>"
    by (auto simp: toString_nat_2)
  moreover
  from checkTreasury_contract [OF other code, of "initial_result team_address"] fails
  have "treasuryTransparency (pillars (verify contract_provider team_address)) =
     \<lparr>verified = False, points = 0, details = ''Not a Gnosis Safe''\<rparr>"
    by auto
  ultimately show ?thesis by simp
qed

text \<open>
  Claim C7: when the bytecode at the address is empty (\<^verbatim>\<open>"0x"\<close>), the treasury checker
  sets the pillar to unverified with 0 points and the details "EOA wallet - not
  multi-sig" (with an em dash), and appends the single-key-wallet risk to the risks;
  the returned report holds that pillar and starts its risks with that entry, whatever
  the other pillars are.
\<close>

theorem checkTreasury_eoa:
  assumes "getCode p a = Inr ''0x''"
  shows "(\<exists>r1. checkTreasury p r a = Inr r1 \<and>
      treasuryTransparency (pillars r1) =
        \<lparr>verified = False, points = 0,
         details = ''EOA wallet '' @ em_dash @ '' not multi-sig''\<rparr> \<and>
      risks r1 = risks r @
        [''Project treasury is single-key wallet '' @ em_dash @ '' critical risk''] \<and>
      warnings r1 = warnings r) \<and>
    treasuryTransparency (pillars (verify p a)) =
      \<lparr>verified = False, points = 0,
       details = ''EOA wallet '' @ em_dash @ '' not multi-sig''\<rparr> \<and>
    risks (verify p a) =
      (''Project treasury is single-key wallet '' @ em_dash @ '' critical risk'')
      # (if score (verify p a) < 200
         then [''High scam risk: Insufficient trust signals''] else [])"
proof -
  note step = treasury_step_eoa [OF assms]
  have "\<exists>r1. checkTreasury p r a = Inr r1 \<and>
      treasuryTransparency (pillars r1) =
        \<lparr>verified = False, points = 0,
         details = ''EOA wallet '' @ em_dash @ '' not multi-sig''\<rparr> \<and>
      risks r1 = risks r @
        [''Project treasury is single-key wallet '' @ em_dash @ '' critical risk''] \<and>
      warnings r1 = warnings r"
    by (simp add: step)
  moreover have "treasuryTransparency (pillars (verify p a)) =
      \<lparr>verified = False, points = 0,
       details = ''EOA wallet '' @ em_dash @ '' not multi-sig''\<rparr>"
    by (simp add: verify_after_treasury_pillars [OF step])
  moreover have "risks (verify p a) =
      (''Project treasury is single-key wallet '' @ em_dash @ '' critical risk'')
      # (if score (verify p a) < 200
         then [''High scam risk: Insufficient trust signals''] else [])"
    by (simp add: verify_after_treasury_risks [OF step] initial_result_def)
  ultimately show ?thesis by blast
qed

theorem checkTreasury_eoa_witness:
  "getCode eoa_provider team_address = Inr ''0x'' \<and>
   treasuryTransparency (pillars (verify eoa_provider team_address)) =
     \<lparr>verified = False, points = 0,
      details = ''EOA wallet '' @ em_dash @ '' not multi-sig''\<rparr> \<and>
   hd (risks (verify eoa_provider team_address)) =
     ''Project treasury is single-key wallet '' @ em_dash @ '' critical risk''"
proof -
  have fetch: "getCode eoa_provider team_address = Inr ''0x''"
    by (simp add: eoa_provider_def)
  from checkTreasury_eoa [OF fetch, of "initial_result team_address"] fetch
  show ?thesis by simp
qed

section \<open>Failures of the provider and malformed addresses\<close>

text \<open>
  Claim C1, as stated, has the other three pillars computed when the provider throws
  during the treasury check. When \<^verbatim>\<open>getCode\<close> throws, the report keeps the initial,
  empty results of all four pillars, although the liquidity and team checkers would
  have verified this address.
\<close>

theorem fetch_failure_counterexample:
  "pillars (verify (failing_provider ''timeout'') team_address) =
     \<lparr>teamTransparency = \<lparr>verified = False, points = 0, details = ''''\<rparr>,
      fairLaunchPledge = \<lparr>verified = False, points = 0, details = ''''\<rparr>,
      liquidityCommitment = \<lparr>verified = False, points = 0, details = ''''\<rparr>,
      treasuryTransparency = \<lparr>verified = False, points = 0, details = ''''\<rparr>\<rparr> \<and>
   liquidityCommitment (pillars (checkLiquidity (initial_result team_address) team_address)) =
     \<lparr>verified = True, points = 150,
      details = ''LP locked for 180 days (non-renounceable)''\<rparr> \<and>
   teamTransparency (pillars (checkTeam (initial_result team_address) team_address)) =
     \<lparr>verified = True, points = 100, details = ''Team verified via ENS/SIWE''\<rparr>"
proof -
  have "getCode (failing_provider ''timeout'') team_address = Inl (Error ''timeout'')"
    by (simp add: failing_provider_def)
  then show ?thesis
    by (simp add: verify_fetch_throws initial_result_def empty_pillar_def checkLiquidity_eq
        checkTeam_eq verifiedTeams_def team_address_def)
qed

text \<open>
  Claim C1, amended: a failure thrown by the contract call (\<^verbatim>\<open>getOwners\<close>) stays inside
  the treasury checker: the treasury pillar is unverified with 0 points and details "Not
  a Gnosis Safe", the non-Gnosis risk is recorded, and the liquidity, team and fair-launch
  results are computed and included. A failure thrown by the bytecode fetch
  (\<^verbatim>\<open>getCode\<close>) leaves the checker and is caught by \<open>verify\<close>: the report returned is
  the initial one (score 0, all four pillars unverified with 0 points and empty details)
  with the single warning "Verification failed: " followed by the error message.
\<close>

theorem treasury_failure_paths:
  "(getCode p a = Inl e \<longrightarrow>
      verify p a =
        (initial_result a)\<lparr>warnings := [''Verification failed: '' @ message e]\<rparr>) \<and>
   (getCode p a = Inr code \<and> code \<noteq> ''0x'' \<and> getOwners p a = Inl e' \<longrightarrow>
      pillars (verify p a) =
        \<lparr>teamTransparency =
           (if a \<in> set verifiedTeams
            then \<lparr>verified = True, points = 100, details = ''Team verified via ENS/SIWE''\<rparr>
            else \<lparr>verified = False, points = 0, details = ''No team verification''\<rparr>),
         fairLaunchPledge =
           \<lparr>verified = False, points = 0, details = ''No fair launch pledge''\<rparr>,
         liquidityCommitment =
           \<lparr>verified = True, points = 150,
            details = ''LP locked for 180 days (non-renounceable)''\<rparr>,
         treasuryTransparency =
           \<lparr>verified = False, points = 0, details = ''Not a Gnosis Safe''\<rparr>\<rparr> \<and>
      risks (verify p a) =
        (''Non-Gnosis treasury '' @ em_dash @ '' high withdrawal risk'')
        # (if score (verify p a) < 200
           then [''High scam risk: Insufficient trust signals''] else []) \<and>
      warnings (verify p a) = [warning_sign @ '' Treasury not verified as Gnosis Safe''])"
proof -
  have caught: "pillars (verify p a) =
        \<lparr>teamTransparency =
           (if a \<in> set verifiedTeams
            then \<lparr>verified = True, points = 100, details = ''Team verified via ENS/SIWE''\<rparr>
            else \<lparr>verified = False, points = 0, details = ''No team verification''\<rparr>),
         fairLaunchPledge =
           \<lparr>verified = False, points = 0, details = ''No fair launch pledge''\<rparr>,
         liquidityCommitment =
           \<lparr>verified = True, points = 150,
            details = ''LP locked for 180 days (non-renounceable)''\<rparr>,
         treasuryTransparency =
           \<lparr>verified = False, points = 0, details = ''Not a Gnosis Safe''\<rparr>\<rparr> \<and>
      risks (verify p a) =
        (''Non-Gnosis treasury '' @ em_dash @ '' high withdrawal risk'')
        # (if score (verify p a) < 200
           then [''High scam risk: Insufficient trust signals''] else []) \<and>
      warnings (verify p a) = [warning_sign @ '' Treasury not verified as Gnosis Safe'']"
    if "getCode p a = Inr code" "code \<noteq> ''0x''" "getOwners p a = Inl e'"
  proof -
    note step = treasury_step_call_fails [OF that]
    show ?thesis
      by (simp add: verify_after_treasury_pillars [OF step] verify_after_treasury_risks [OF step]
          verify_after_treasury_warnings [OF step] initial_result_def)
  qed
  then show ?thesis by (simp add: verify_fetch_throws)
qed

theorem treasury_failure_paths_witness:
  "verify (failing_provider ''timeout'') team_address =
     (initial_result team_address)\<lparr>warnings := [''Verification failed: timeout'']\<rparr> \<and>
   verified (liquidityCommitment (pillars (verify contract_provider team_address))) \<and>
   verified (teamTransparency (pillars (verify contract_provider team_address))) \<and>
   treasuryTransparency (pillars (verify contract_provider team_address)) =
     \<lparr>verified = False, points = 0, details = ''Not a Gnosis Safe''\<rparr> \<and>
   warnings (verify contract_provider team_address) =
     [warning_sign @ '' Treasury not verified as Gnosis Safe'']"
proof -
  have down: "getCode (failing_provider ''timeout'') team_address = Inl (Error ''timeout'')"
    by (simp add: failing_provider_def)
  have contract: "getCode contract_provider team_address = Inr ''0x6080'' \<and> ''0x6080'' \<noteq> ''0x''
      \<and> getOwners contract_provider team_address = Inl (Error ''call revert exception'')"
    by (simp add: contract_provider_def)
  have listed: "team_address \<in> set verifiedTeams"
    by (simp add: team_address_def verifiedTeams_def)
  from treasury_failure_paths
      [of "failing_provider ''timeout''" team_address "Error ''timeout''"] down
  have "verify (failing_provider ''timeout'') team_address =
     (initial_result team_address)\<lparr>warnings := [''Verification failed: timeout'']\<rparr>"
    by simp
  moreover
  from treasury_failure_paths
      [of contract_provider team_address _ "''0x6080''" "Error ''call revert exception''"]
    contract listed
  have "verified (liquidityCommitment (pillars (verify contract_provider team_address))) \<and>
   verified (teamTransparency (pillars (verify contract_provider team_address))) \<and>
   treasuryTransparency (pillars (verify contract_provider team_address)) =
     \<lparr>verified = False, points = 0, details = ''Not a Gnosis Safe''\<rparr> \<and>
   warnings (verify contract_provider team_address) =
     [warning_sign @ '' Treasury not verified as Gnosis Safe'']"
    by simp
  ultimately show ?thesis by simp
qed

text \<open>
  Claim C8, as stated, covers every returned report. The report returned after a failed
  bytecode fetch has a score below 200 and no risk at all, and unverified treasury and
  liquidity pillars without their two warnings.
\<close>

theorem fetch_failure_messages_counterexample:
  "score (verify (failing_provider ''timeout'') scam_address) < 200 \<and>
   risks (verify (failing_provider ''timeout'') scam_address) = [] \<and>
   \<not> verified (treasuryTransparency (pillars (verify (failing_provider ''timeout'') scam_address))) \<and>
   \<not> verified (liquidityCommitment (pillars (verify (failing_provider ''timeout'') scam_address))) \<and>
   warnings (verify (failing_provider ''timeout'') scam_address) =
     [''Verification failed: timeout'']"
proof -
  have "getCode (failing_provider ''timeout'') scam_address = Inl (Error ''timeout'')"
    by (simp add: failing_provider_def)
  then show ?thesis
    by (simp add: verify_fetch_throws initial_result_def empty_pillar_def)
qed

text \<open>
  Claim C8, amended: in every report returned from a run whose bytecode fetch did not
  throw, the risks are, in this order, the treasury checker's risk (if any) and the
  aggregate risk "High scam risk: Insufficient trust signals", present exactly when the
  score is below 200; the warnings are, in this order, the treasury checker's low-signer
  warning (if any), the treasury-unverified warning (if the treasury pillar is
  unverified) and the liquidity-unverified warning (if the liquidity pillar is
  unverified). Each entry is appended once and nothing is removed. The liquidity, team
  and fair-launch checkers append nothing.
\<close>

theorem verify_message_order:
  assumes "getCode p a = Inr code"
  shows "risks (verify p a) =
      (if code = ''0x''
       then [''Project treasury is single-key wallet '' @ em_dash @ '' critical risk'']
       else case getOwners p a of
              Inl e \<Rightarrow> [''Non-Gnosis treasury '' @ em_dash @ '' high withdrawal risk'']
            | Inr owners \<Rightarrow> [])
      @ (if score (verify p a) < 200
         then [''High scam risk: Insufficient trust signals''] else []) \<and>
    warnings (verify p a) =
      (if code = ''0x'' then []
       else case getOwners p a of
              Inl e \<Rightarrow> []
            | Inr owners \<Rightarrow>
                if length owners < 3
                then [''Low-signer Gnosis Safe ('' @ toString_nat (length owners) @ ''/3)'']
                else [])
      @ (if \<not> verified (treasuryTransparency (pillars (verify p a)))
         then [warning_sign @ '' Treasury not verified as Gnosis Safe''] else [])
      @ (if \<not> verified (liquidityCommitment (pillars (verify p a)))
         then [warning_sign @ '' No long-term LP lock detected''] else []) \<and>
    risks (checkLiquidity r a) = risks r \<and> warnings (checkLiquidity r a) = warnings r \<and>
    risks (checkTeam r a) = risks r \<and> warnings (checkTeam r a) = warnings r \<and>
    risks (checkFairLaunch r a) = risks r \<and> warnings (checkFairLaunch r a) = warnings r"
proof -
  have frames: "risks (checkLiquidity r a) = risks r \<and> warnings (checkLiquidity r a) = warnings r \<and>
    risks (checkTeam r a) = risks r \<and> warnings (checkTeam r a) = warnings r \<and>
    risks (checkFairLaunch r a) = risks r \<and> warnings (checkFairLaunch r a) = warnings r"
    by (simp add: checkLiquidity_eq checkTeam_eq checkFairLaunch_eq)
  have lists: "risks (verify p a) =
      (if code = ''0x''
       then [''Project treasury is single-key wallet '' @ em_dash @ '' critical risk'']
       else case getOwners p a of
              Inl e \<Rightarrow> [''Non-Gnosis treasury '' @ em_dash @ '' high withdrawal risk'']
            | Inr owners \<Rightarrow> [])
      @ (if score (verify p a) < 200
         then [''High scam risk: Insufficient trust signals''] else []) \<and>
    warnings (verify p a) =
      (if code = ''0x'' then []
       else case getOwners p a of
              Inl e \<Rightarrow> []
            | Inr owners \<Rightarrow>
                if length owners < 3
                then [''Low-signer Gnosis Safe ('' @ toString_nat (length owners) @ ''/3)'']
                else [])
      @ (if \<not> verified (treasuryTransparency (pillars (verify p a)))
         then [warning_sign @ '' Treasury not verified as Gnosis Safe''] else [])
      @ (if \<not> verified (liquidityCommitment (pillars (verify p a)))
         then [warning_sign @ '' No long-term LP lock detected''] else [])"
  proof (cases "code = ''0x''")
    case True
    with assms have fetch: "getCode p a = Inr ''0x''" by simp
    note step = treasury_step_eoa [OF fetch]
    show ?thesis
      using True
      by (simp add: verify_after_treasury_pillars [OF step] verify_after_treasury_risks [OF step]
          verify_after_treasury_warnings [OF step] initial_result_def)
  next
    case contract: False
    show ?thesis
    proof (cases "getOwners p a")
      case (Inl e)
      note step = treasury_step_call_fails [OF assms contract Inl]
      show ?thesis
        using contract Inl
        by (simp add: verify_after_treasury_pillars [OF step] verify_after_treasury_risks [OF step]
            verify_after_treasury_warnings [OF step] initial_result_def)
    next
      case (Inr owners)
      show ?thesis
      proof (cases "3 \<le> length owners")
        case True
        note step = treasury_step_safe [OF assms contract Inr True]
        show ?thesis
          using contract Inr True
          by (simp add: verify_after_treasury_pillars [OF step]
              verify_after_treasury_risks [OF step] verify_after_treasury_warnings [OF step]
              initial_result_def)
      next
        case False
        then have few: "length owners < 3" by simp
        note step = treasury_step_low_signer [OF assms contract Inr few]
        show ?thesis
          using contract Inr few
          by (simp add: verify_after_treasury_pillars [OF step]
              verify_after_treasury_risks [OF step] verify_after_treasury_warnings [OF step]
              initial_result_def)
      qed
    qed
  qed
  from lists frames show ?thesis by blast
qed

theorem verify_message_order_witness:
  "getCode (safe_provider 2) scam_address = Inr ''0x6080'' \<and>
   score (verify (safe_provider 2) scam_address) = 150 \<and>
   risks (verify (safe_provider 2) scam_address) =
     [''High scam risk: Insufficient trust signals''] \<and>
   warnings (verify (safe_provider 2) scam_address) =
     [''Low-signer Gnosis Safe (2/3)'', warning_sign @ '' Treasury not verified as Gnosis Safe'']"
proof -
  have fetch: "getCode (safe_provider 2) scam_address = Inr ''0x6080''"
    by (simp add: safe_provider_def)
  have owners: "getOwners (safe_provider 2) scam_address
      = Inr (replicate 2 ''0x742d35Cc6634C0532925a3b8D4C9db4c2B6D9126'')"
    by (simp add: safe_provider_def)
  have few: "length (replicate 2 ''0x742d35Cc6634C0532925a3b8D4C9db4c2B6D9126'') < 3"
    by simp
  note step = treasury_step_low_signer [OF fetch _ owners few]
  have unlisted: "scam_address \<notin> set verifiedTeams"
    by (simp add: scam_address_def verifiedTeams_def)
  have total: "score (verify (safe_provider 2) scam_address) = 150"
    using unlisted by (simp add: verify_score verify_after_treasury_pillars [OF step])
  have pillars: "\<not> verified (treasuryTransparency (pillars (verify (safe_provider 2) scam_address)))
      \<and> verified (liquidityCommitment (pillars (verify (safe_provider 2) scam_address)))"
    by (simp add: verify_after_treasury_pillars [OF step])
  from verify_message_order [OF fetch] owners total pillars fetch
  show ?thesis by (simp add: toString_nat_2)
qed

section \<open>The address\<close>

lemma initial_result_address: "initial_result a = (initial_result b)\<lparr>address := a\<rparr>"
  by (simp add: initial_result_def)

lemma treasury_step_address:
  assumes "getCode p a = getCode p b" and "getOwners p a = getOwners p b"
    and "checkTreasury p r b = Inr r1"
  shows "checkTreasury p (r\<lparr>address := a\<rparr>) a = Inr (r1\<lparr>address := a\<rparr>)"
  using assms
  by (auto simp: checkTreasury_def set_treasury_def push_def split: sum.splits if_splits)

lemma finalize_address_update: "finalize (r\<lparr>address := a\<rparr>) = (finalize r)\<lparr>address := a\<rparr>"
  by (rule report.equality)
     (simp_all add: finalize_address finalize_score finalize_tier finalize_pillars
        finalize_risks finalize_warnings)

lemma checkers_address_update:
  assumes "(a \<in> set verifiedTeams) = (b \<in> set verifiedTeams)"
  shows "checkFairLaunch (checkTeam (checkLiquidity (r\<lparr>address := a\<rparr>) a) a) a =
    (checkFairLaunch (checkTeam (checkLiquidity r b) b) b)\<lparr>address := a\<rparr>"
  using assms by (simp add: checkLiquidity_eq checkTeam_eq checkFairLaunch_eq)

text \<open>
  Claim C9, as stated, has \<open>verify\<close> stop with an error at a malformed address, before any
  pillar check and without a report. At the placeholder address of \<^verbatim>\<open>demo\<close>, which is
  no valid address, the provider rejects the address inside the treasury check and
  \<open>verify\<close> returns the report of its \<^verbatim>\<open>catch\<close> block: score 0, tier Unverified, the
  four initial pillar results, no risk and one warning.
\<close>

theorem verify_scam_address_counterexample:
  "verify (failing_provider ''invalid address'') scam_address =
     \<lparr>address = ''0xScamWalletAddressHere'', score = 0, maxScore = 500, tier = ''Unverified'',
      pillars =
        \<lparr>teamTransparency = \<lparr>verified = False, points = 0, details = ''''\<rparr>,
         fairLaunchPledge = \<lparr>verified = False, points = 0, details = ''''\<rparr>,
         liquidityCommitment = \<lparr>verified = False, points = 0, details = ''''\<rparr>,
         treasuryTransparency = \<lparr>verified = False, points = 0, details = ''''\<rparr>\<rparr>,
      risks = [],
      warnings = [''Verification failed: invalid address'']\<rparr>"
proof -
  have rejected: "getCode (failing_provider ''invalid address'') scam_address
      = Inl (Error ''invalid address'')"
    by (simp add: failing_provider_def)
  then show ?thesis
    by (simp add: verify_fetch_throws initial_result_def empty_pillar_def scam_address_def)
qed

text \<open>
  Claim C9, amended: \<open>verify\<close> does not check the syntax of the address and raises no
  error: for every address it starts the treasury check and returns a report for that
  address. The address reaches the report only as its address field, through the
  provider's answers for it, and through its membership in \<^verbatim>\<open>verifiedTeams\<close>. When the
  provider's bytecode fetch throws, as it does for a malformed address, the report is the
  initial one (score 0, all pillars unverified) with the single warning "Verification
  failed: " followed by the message. When the fetch returns, all four pillar checks run:
  the report holds the treasury pillar that the treasury checker produced and the
  results of the liquidity, team and fair-launch checkers.
\<close>

theorem verify_no_address_check:
  "address (verify p a) = a \<and>
   (getCode p a = Inl e \<longrightarrow>
      verify p a =
        (initial_result a)\<lparr>warnings := [''Verification failed: '' @ message e]\<rparr>) \<and>
   (getCode p a = Inr code \<longrightarrow>
      (\<exists>r1. checkTreasury p (initial_result a) a = Inr r1 \<and>
         treasuryTransparency (pillars (verify p a)) = treasuryTransparency (pillars r1)) \<and>
      details (treasuryTransparency (pillars (verify p a))) \<noteq> '''' \<and>
      liquidityCommitment (pillars (verify p a)) =
        \<lparr>verified = True, points = 150,
         details = ''LP locked for 180 days (non-renounceable)''\<rparr> \<and>
      liquidityCommitment (pillars (verify p a)) =
        liquidityCommitment (pillars (checkLiquidity (initial_result a) a)) \<and>
      teamTransparency (pillars (verify p a)) =
        (if a \<in> set verifiedTeams
         then \<lparr>verified = True, points = 100, details = ''Team verified via ENS/SIWE''\<rparr>
         else \<lparr>verified = False, points = 0, details = ''No team verification''\<rparr>) \<and>
      teamTransparency (pillars (verify p a)) =
        teamTransparency (pillars (checkTeam (initial_result a) a)) \<and>
      fairLaunchPledge (pillars (verify p a)) =
        \<lparr>verified = False, points = 0, details = ''No fair launch pledge''\<rparr> \<and>
      fairLaunchPledge (pillars (verify p a)) =
        fairLaunchPledge (pillars (checkFairLaunch (initial_result a) a))) \<and>
   (getCode p a = getCode p b \<and> getOwners p a = getOwners p b \<and>
    (a \<in> set verifiedTeams) = (b \<in> set verifiedTeams) \<longrightarrow>
      verify p a = (verify p b)\<lparr>address := a\<rparr>)"
proof -
  have field: "address (verify p a) = a"
  proof (cases "getCode p a")
    case (Inl e)
    then show ?thesis by (simp add: verify_fetch_throws initial_result_def)
  next
    case (Inr code)
    from treasury_step_frame [OF this] obtain r1
      where step: "checkTreasury p (initial_result a) a = Inr r1"
        and same: "address r1 = address (initial_result a)"
      by blast
    have "address (verify p a) = address r1"
      by (simp only: verify_after_treasury [OF step] finalize_address)
         (simp add: checkLiquidity_eq checkTeam_eq checkFairLaunch_eq)
    with same show ?thesis by (simp add: initial_result_def)
  qed
  have checks_run:
    "(\<exists>r1. checkTreasury p (initial_result a) a = Inr r1 \<and>
         treasuryTransparency (pillars (verify p a)) = treasuryTransparency (pillars r1)) \<and>
      details (treasuryTransparency (pillars (verify p a))) \<noteq> '''' \<and>
      liquidityCommitment (pillars (verify p a)) =
        \<lparr>verified = True, points = 150,
         details = ''LP locked for 180 days (non-renounceable)''\<rparr> \<and>
      liquidityCommitment (pillars (verify p a)) =
        liquidityCommitment (pillars (checkLiquidity (initial_result a) a)) \<and>
      teamTransparency (pillars (verify p a)) =
        (if a \<in> set verifiedTeams
         then \<lparr>verified = True, points = 100, details = ''Team verified via ENS/SIWE''\<rparr>
         else \<lparr>verified = False, points = 0, details = ''No team verification''\<rparr>) \<and>
      teamTransparency (pillars (verify p a)) =
        teamTransparency (pillars (checkTeam (initial_result a) a)) \<and>
      fairLaunchPledge (pillars (verify p a)) =
        \<lparr>verified = False, points = 0, details = ''No fair launch pledge''\<rparr> \<and>
      fairLaunchPledge (pillars (verify p a)) =
        fairLaunchPledge (pillars (checkFairLaunch (initial_result a) a))"
    if fetch: "getCode p a = Inr code"
  proof -
    have nonempty: "details (treasuryTransparency (pillars (verify p a))) \<noteq> ''''"
    proof (cases "code = ''0x''")
      case True
      with fetch have eoa: "getCode p a = Inr ''0x''" by simp
      note step = treasury_step_eoa [OF eoa]
      show ?thesis by (simp add: verify_after_treasury_pillars [OF step])
    next
      case contract: False
      show ?thesis
      proof (cases "getOwners p a")
        case (Inl e)
        note step = treasury_step_call_fails [OF fetch contract Inl]
        show ?thesis by (simp add: verify_after_treasury_pillars [OF step])
      next
        case (Inr owners)
        show ?thesis
        proof (cases "3 \<le> length owners")
          case True
          note step = treasury_step_safe [OF fetch contract Inr True]
          show ?thesis by (simp add: verify_after_treasury_pillars [OF step])
        next
          case False
          then have few: "length owners < 3" by simp
          note step = treasury_step_low_signer [OF fetch contract Inr few]
          show ?thesis by (simp add: verify_after_treasury_pillars [OF step])
        qed
      qed
    qed
    from treasury_step_frame [OF fetch] obtain r1
      where step: "checkTreasury p (initial_result a) a = Inr r1"
      by blast
    have link: "\<exists>r1. checkTreasury p (initial_result a) a = Inr r1 \<and>
         treasuryTransparency (pillars (verify p a)) = treasuryTransparency (pillars r1)"
      using step by (simp add: verify_after_treasury_pillars [OF step])
    have others: "liquidityCommitment (pillars (verify p a)) =
        \<lparr>verified = True, points = 150,
         details = ''LP locked for 180 days (non-renounceable)''\<rparr> \<and>
      liquidityCommitment (pillars (verify p a)) =
        liquidityCommitment (pillars (checkLiquidity (initial_result a) a)) \<and>
      teamTransparency (pillars (verify p a)) =
        (if a \<in> set verifiedTeams
         then \<lparr>verified = True, points = 100, details = ''Team verified via ENS/SIWE''\<rparr>
         else \<lparr>verified = False, points = 0, details = ''No team verification''\<rparr>) \<and>
      teamTransparency (pillars (verify p a)) =
        teamTransparency (pillars (checkTeam (initial_result a) a)) \<and>
      fairLaunchPledge (pillars (verify p a)) =
        \<lparr>verified = False, points = 0, details = ''No fair launch pledge''\<rparr> \<and>
      fairLaunchPledge (pillars (verify p a)) =
        fairLaunchPledge (pillars (checkFairLaunch (initial_result a) a))"
      by (simp add: verify_after_treasury_pillars [OF step] checkLiquidity_eq checkTeam_eq
          checkFairLaunch_eq)
    from link nonempty others show ?thesis by blast
  qed
  have same_answers: "verify p a = (verify p b)\<lparr>address := a\<rparr>"
    if code: "getCode p a = getCode p b" and owners: "getOwners p a = getOwners p b"
      and team: "(a \<in> set verifiedTeams) = (b \<in> set verifiedTeams)"
  proof (cases "getCode p b")
    case (Inl e)
    with code show ?thesis by (simp add: verify_fetch_throws initial_result_def)
  next
    case (Inr c)
    from treasury_step_frame [OF this] obtain r1
      where step_b: "checkTreasury p (initial_result b) b = Inr r1"
      by blast
    from treasury_step_address [OF code owners step_b]
    have step_a: "checkTreasury p (initial_result a) a = Inr (r1\<lparr>address := a\<rparr>)"
      by (simp add: initial_result_address [of a b])
    show ?thesis
      by (simp only: verify_after_treasury [OF step_a] verify_after_treasury [OF step_b]
          checkers_address_update [OF team] finalize_address_update)
  qed
  have throws: "verify p a =
        (initial_result a)\<lparr>warnings := [''Verification failed: '' @ message e]\<rparr>"
    if "getCode p a = Inl e"
    using that by (rule verify_fetch_throws)
  from field throws checks_run same_answers show ?thesis by blast
qed

theorem verify_no_address_check_witness:
  "getCode (failing_provider ''invalid address'') scam_address = Inl (Error ''invalid address'') \<and>
   verify (failing_provider ''invalid address'') scam_address =
     (initial_result scam_address)\<lparr>warnings := [''Verification failed: invalid address'']\<rparr> \<and>
   getCode (safe_provider 3) team_address = Inr ''0x6080'' \<and>
   pillars (verify (safe_provider 3) team_address) =
     \<lparr>teamTransparency =
        \<lparr>verified = True, points = 100, details = ''Team verified via ENS/SIWE''\<rparr>,
      fairLaunchPledge = \<lparr>verified = False, points = 0, details = ''No fair launch pledge''\<rparr>,
      liquidityCommitment =
        \<lparr>verified = True, points = 150,
         details = ''LP locked for 180 days (non-renounceable)''\<rparr>,
      treasuryTransparency =
        \<lparr>verified = True, points = 150, details = ''Gnosis Safe with 3 signers''\<rparr>\<rparr> \<and>
   getCode (safe_provider 3) team_address
     = getCode (safe_provider 3) ''0x742d35Cc6634C0532925a3b8D4C9db4c2B6D9126'' \<and>
   getOwners (safe_provider 3) team_address
     = getOwners (safe_provider 3) ''0x742d35Cc6634C0532925a3b8D4C9db4c2B6D9126'' \<and>
   (team_address \<in> set verifiedTeams)
     = (''0x742d35Cc6634C0532925a3b8D4C9db4c2B6D9126'' \<in> set verifiedTeams) \<and>
   verify (safe_provider 3) team_address =
     (verify (safe_provider 3) ''0x742d35Cc6634C0532925a3b8D4C9db4c2B6D9126'')
       \<lparr>address := team_address\<rparr>"
proof -
  have rejected: "getCode (failing_provider ''invalid address'') scam_address
      = Inl (Error ''invalid address'')"
    by (simp add: failing_provider_def)
  have fetch: "getCode (safe_provider 3) team_address = Inr ''0x6080''"
    by (simp add: safe_provider_def)
  have owners: "getOwners (safe_provider 3) team_address
      = Inr (replicate 3 ''0x742d35Cc6634C0532925a3b8D4C9db4c2B6D9126'')"
    by (simp add: safe_provider_def)
  have answers: "getCode (safe_provider 3) team_address
        = getCode (safe_provider 3) ''0x742d35Cc6634C0532925a3b8D4C9db4c2B6D9126'' \<and>
      getOwners (safe_provider 3) team_address
        = getOwners (safe_provider 3) ''0x742d35Cc6634C0532925a3b8D4C9db4c2B6D9126''"
    by (simp add: safe_provider_def)
  have team: "(team_address \<in> set verifiedTeams)
      = (''0x742d35Cc6634C0532925a3b8D4C9db4c2B6D9126'' \<in> set verifiedTeams)"
    by (simp add: team_address_def verifiedTeams_def)
  have listed: "team_address \<in> set verifiedTeams"
    by (simp add: team_address_def verifiedTeams_def)
  have step: "checkTreasury (safe_provider 3) (initial_result team_address) team_address =
      Inr ((initial_result team_address)
        \<lparr>pillars := (pillars (initial_result team_address))\<lparr>treasuryTransparency :=
           \<lparr>verified = True, points = 150, details = ''Gnosis Safe with 3 signers''\<rparr>\<rparr>\<rparr>)"
    using treasury_step_safe [OF fetch _ owners, of "initial_result team_address"]
    by (simp add: toString_nat_3)
  from verify_no_address_check
      [of "failing_provider ''invalid address''" scam_address "Error ''invalid address''"]
    rejected
  have caught: "verify (failing_provider ''invalid address'') scam_address =
     (initial_result scam_address)\<lparr>warnings := [''Verification failed: invalid address'']\<rparr>"
    by simp
  from verify_no_address_check [of "safe_provider 3" team_address _ "''0x6080''"] fetch listed
  have run: "(\<exists>r1. checkTreasury (safe_provider 3) (initial_result team_address) team_address
          = Inr r1 \<and>
        treasuryTransparency (pillars (verify (safe_provider 3) team_address))
          = treasuryTransparency (pillars r1)) \<and>
      liquidityCommitment (pillars (verify (safe_provider 3) team_address)) =
        \<lparr>verified = True, points = 150,
         details = ''LP locked for 180 days (non-renounceable)''\<rparr> \<and>
      teamTransparency (pillars (verify (safe_provider 3) team_address)) =
        \<lparr>verified = True, points = 100, details = ''Team verified via ENS/SIWE''\<rparr> \<and>
      fairLaunchPledge (pillars (verify (safe_provider 3) team_address)) =
        \<lparr>verified = False, points = 0, details = ''No fair launch pledge''\<rparr>"
    by simp
  then have treasury: "treasuryTransparency (pillars (verify (safe_provider 3) team_address)) =
      \<lparr>verified = True, points = 150, details = ''Gnosis Safe with 3 signers''\<rparr>"
    by (auto simp: step)
  have shape: "pillars (verify (safe_provider 3) team_address) =
     \<lparr>teamTransparency =
        \<lparr>verified = True, points = 100, details = ''Team verified via ENS/SIWE''\<rparr>,
      fairLaunchPledge = \<lparr>verified = False, points = 0, details = ''No fair launch pledge''\<rparr>,
      liquidityCommitment =
        \<lparr>verified = True, points = 150,
         details = ''LP locked for 180 days (non-renounceable)''\<rparr>,
      treasuryTransparency =
        \<lparr>verified = True, points = 150, details = ''Gnosis Safe with 3 signers''\<rparr>\<rparr>"
    by (rule pillar_map.equality) (simp_all add: run treasury)
  from verify_no_address_check
      [of "safe_provider 3" team_address _ _ "''0x742d35Cc6634C0532925a3b8D4C9db4c2B6D9126''"]
    answers team
  have same: "verify (safe_provider 3) team_address =
     (verify (safe_provider 3) ''0x742d35Cc6634C0532925a3b8D4C9db4c2B6D9126'')
       \<lparr>address := team_address\<rparr>"
    by simp
  from rejected caught fetch shape answers team same show ?thesis by simp
qed

end
